theory Spec2Isabelle
  imports Main
begin

section \<open>Data model of \<^verbatim>\<open>BPlusTree.py\<close>\<close>

text \<open>
  Python objects live in a store. Every \<^verbatim>\<open>Node\<close> that is created increments the class
  variable \<^verbatim>\<open>Node.uidCounter\<close> and takes the new value as its \<^verbatim>\<open>uid\<close>, so the uid
  identifies the object and serves as its address. Addresses above \<^verbatim>\<open>uidCounter\<close> are
  not allocated.
\<close>

type_synonym addr = nat

text \<open>An element of \<^verbatim>\<open>node.values\<close>: a child node (internal nodes) or a bucket, the
  Python list of the values stored under one key (leaves).\<close>

datatype 'v pyval = Ref addr | Bucket "'v list"

datatype error = TypeError | IndexError | AttributeError | NameError

text \<open>\<^verbatim>\<open>is_leaf\<close> is \<^verbatim>\<open>isinstance(node, LeafNode)\<close>; \<^verbatim>\<open>vals\<close> is the attribute
  \<^verbatim>\<open>values\<close>; \<^verbatim>\<open>prevLeaf\<close> and \<^verbatim>\<open>nextLeaf\<close> exist on leaves only.\<close>

record ('k, 'v) node =
  is_leaf :: bool
  order :: int
  parent :: "addr option"
  keys :: "'k list"
  vals :: "'v pyval list"
  uid :: nat
  prevLeaf :: "addr option"
  nextLeaf :: "addr option"

record ('k, 'v) state =
  heap :: "addr \<Rightarrow> ('k, 'v) node"
  uidCounter :: nat

text \<open>The \<^verbatim>\<open>BPlusTree\<close> object: \<^verbatim>\<open>self.root\<close> and \<^verbatim>\<open>self.order\<close>.\<close>

record bptree =
  root :: addr
  tree_order :: int

subsection \<open>Python list primitives\<close>

text \<open>The position that a Python index denotes in a list of the given length: an index
  from \<open>-len\<close> to \<open>-1\<close> counts from the end; \<open>None\<close> when it is out of range.\<close>

definition py_pos :: "nat \<Rightarrow> int \<Rightarrow> nat option" where
  "py_pos len i =
     (if 0 \<le> i \<and> i < int len then Some (nat i)
      else if i < 0 \<and> - int len \<le> i then Some (nat (int len + i))
      else None)"

text \<open>\<^verbatim>\<open>xs[i]\<close> raises \<^verbatim>\<open>IndexError\<close> out of range.\<close>

definition py_index :: "'a list \<Rightarrow> int \<Rightarrow> error + 'a" where
  "py_index xs i = (case py_pos (length xs) i of None \<Rightarrow> Inl IndexError | Some j \<Rightarrow> Inr (xs ! j))"

text \<open>\<^verbatim>\<open>xs[:m]\<close> and \<^verbatim>\<open>xs[m:]\<close>: slices never raise, a negative bound counts from the end.\<close>

definition py_upto :: "'a list \<Rightarrow> int \<Rightarrow> 'a list" where
  "py_upto xs m = (if 0 \<le> m then take (nat m) xs else take (length xs - nat (- m)) xs)"

definition py_from :: "'a list \<Rightarrow> int \<Rightarrow> 'a list" where
  "py_from xs m = (if 0 \<le> m then drop (nat m) xs else drop (length xs - nat (- m)) xs)"

text \<open>\<^verbatim>\<open>xs.pop(i)\<close>: the removed element and the rest.\<close>

definition py_pop :: "'a list \<Rightarrow> int \<Rightarrow> error + ('a \<times> 'a list)" where
  "py_pop xs i =
     (case py_pos (length xs) i of
        None \<Rightarrow> Inl IndexError
      | Some j \<Rightarrow> Inr (xs ! j, take j xs @ drop (Suc j) xs))"

text \<open>\<^verbatim>\<open>xs[i] = v\<close>.\<close>

definition py_store :: "'a list \<Rightarrow> int \<Rightarrow> 'a \<Rightarrow> error + 'a list" where
  "py_store xs i v =
     (case py_pos (length xs) i of None \<Rightarrow> Inl IndexError | Some j \<Rightarrow> Inr (xs[j := v]))"

subsection \<open>The store\<close>

definition upd :: "addr \<Rightarrow> (('k, 'v) node \<Rightarrow> ('k, 'v) node) \<Rightarrow> ('k, 'v) state \<Rightarrow> ('k, 'v) state" where
  "upd a f s = s\<lparr>heap := (heap s)(a := f (heap s a))\<rparr>"

definition blank :: "('k, 'v) node" where
  "blank = \<lparr>is_leaf = False, order = 0, parent = None, keys = [], vals = [], uid = 0,
            prevLeaf = None, nextLeaf = None\<rparr>"

definition init_state :: "('k, 'v) state" where
  "init_state = \<lparr>heap = (\<lambda>_. blank), uidCounter = 0\<rparr>"

text \<open>\<^verbatim>\<open>Node.__init__\<close> and \<^verbatim>\<open>LeafNode.__init__\<close>.\<close>

definition Node_init :: "int \<Rightarrow> ('k, 'v) state \<Rightarrow> addr \<times> ('k, 'v) state" where
  "Node_init ord s =
     (let u = uidCounter s + 1
      in (u, \<lparr>heap = (heap s)(u := \<lparr>is_leaf = False, order = ord, parent = None, keys = [],
                 vals = [], uid = u, prevLeaf = None, nextLeaf = None\<rparr>),
              uidCounter = u\<rparr>))"

definition LeafNode_init :: "int \<Rightarrow> ('k, 'v) state \<Rightarrow> addr \<times> ('k, 'v) state" where
  "LeafNode_init ord s =
     (let u = uidCounter s + 1
      in (u, \<lparr>heap = (heap s)(u := \<lparr>is_leaf = True, order = ord, parent = None, keys = [],
                 vals = [], uid = u, prevLeaf = None, nextLeaf = None\<rparr>),
              uidCounter = u\<rparr>))"

text \<open>\<^verbatim>\<open>for child in vs: if isinstance(child, Node): child.parent = p\<close>.\<close>

definition reparent :: "addr \<Rightarrow> 'v pyval list \<Rightarrow> ('k, 'v) state \<Rightarrow> ('k, 'v) state" where
  "reparent p vs s =
     fold (\<lambda>v s'. case v of Ref c \<Rightarrow> upd c (\<lambda>n. n\<lparr>parent := Some p\<rparr>) s' | Bucket _ \<Rightarrow> s') vs s"

section \<open>Node and LeafNode\<close>

text \<open>\<^verbatim>\<open>Node.split\<close>: the node keeps the middle key and gets two new children.\<close>

definition Node_split :: "addr \<Rightarrow> ('k, 'v) state \<Rightarrow> error + (addr \<times> ('k, 'v) state)" where
  "Node_split self s =
     (let (left, s1) = Node_init (order (heap s self)) s;
          (right, s2) = Node_init (order (heap s1 self)) s1;
          mid = order (heap s2 self) div 2;
          s3 = upd right (\<lambda>n. n\<lparr>parent := Some self\<rparr>) s2;
          s4 = upd left (\<lambda>n. n\<lparr>parent := Some self\<rparr>) s3;
          s5 = upd left (\<lambda>n. n\<lparr>keys := py_upto (keys (heap s4 self)) mid\<rparr>) s4;
          s6 = upd left (\<lambda>n. n\<lparr>vals := py_upto (vals (heap s5 self)) (mid + 1)\<rparr>) s5;
          s7 = upd right (\<lambda>n. n\<lparr>keys := py_from (keys (heap s6 self)) (mid + 1)\<rparr>) s6;
          s8 = upd right (\<lambda>n. n\<lparr>vals := py_from (vals (heap s7 self)) (mid + 1)\<rparr>) s7;
          s9 = upd self (\<lambda>n. n\<lparr>vals := [Ref left, Ref right]\<rparr>) s8
      in case py_index (keys (heap s9 self)) mid of
           Inl e \<Rightarrow> Inl e
         | Inr k \<Rightarrow>
             (let s10 = upd self (\<lambda>n. n\<lparr>keys := [k]\<rparr>) s9;
                  s11 = reparent left (vals (heap s10 left)) s10;
                  s12 = reparent right (vals (heap s11 right)) s11
              in Inr (self, s12)))"

text \<open>\<^verbatim>\<open>LeafNode.add\<close>: the loop over \<^verbatim>\<open>enumerate(self.keys)\<close>, at index \<open>i\<close> with the keys
  still to visit; \<^verbatim>\<open>i + 1 == len(self.keys)\<close> holds exactly at the last one.\<close>

fun add_loop :: "'k::linorder \<Rightarrow> 'v \<Rightarrow> nat \<Rightarrow> 'k list \<Rightarrow> ('k, 'v) node \<Rightarrow> error + ('k, 'v) node" where
  "add_loop key v i [] n = Inr n"
| "add_loop key v i (item # rest) n =
     (if key = item then
        (case py_index (vals n) (int i) of
           Inl e \<Rightarrow> Inl e
         | Inr (Ref _) \<Rightarrow> Inl AttributeError
         | Inr (Bucket b) \<Rightarrow> Inr (n\<lparr>vals := (vals n)[i := Bucket (b @ [v])]\<rparr>))
      else if key < item then
        Inr (n\<lparr>keys := take i (keys n) @ [key] @ drop i (keys n),
               vals := take i (vals n) @ [Bucket [v]] @ drop i (vals n)\<rparr>)
      else if rest = [] then
        Inr (n\<lparr>keys := keys n @ [key], vals := vals n @ [Bucket [v]]\<rparr>)
      else add_loop key v (i + 1) rest n)"

definition LeafNode_add :: "'k::linorder \<Rightarrow> 'v \<Rightarrow> ('k, 'v) node \<Rightarrow> error + ('k, 'v) node" where
  "LeafNode_add key v n =
     (if keys n = [] then Inr (n\<lparr>keys := keys n @ [key], vals := vals n @ [Bucket [v]]\<rparr>)
      else add_loop key v 0 (keys n) n)"

text \<open>\<^verbatim>\<open>LeafNode.split\<close>: a new top node and a new right leaf.\<close>

definition LeafNode_split :: "addr \<Rightarrow> ('k, 'v) state \<Rightarrow> error + (addr \<times> ('k, 'v) state)" where
  "LeafNode_split self s =
     (let (top, s1) = Node_init (order (heap s self)) s;
          (right, s2) = LeafNode_init (order (heap s1 self)) s1;
          mid = order (heap s2 self) div 2;
          s3 = upd right (\<lambda>n. n\<lparr>parent := Some top\<rparr>) s2;
          s4 = upd self (\<lambda>n. n\<lparr>parent := Some top\<rparr>) s3;
          s5 = upd right (\<lambda>n. n\<lparr>keys := py_from (keys (heap s4 self)) mid\<rparr>) s4;
          s6 = upd right (\<lambda>n. n\<lparr>vals := py_from (vals (heap s5 self)) mid\<rparr>) s5;
          s7 = upd right (\<lambda>n. n\<lparr>prevLeaf := Some self\<rparr>) s6;
          s8 = upd right (\<lambda>n. n\<lparr>nextLeaf := nextLeaf (heap s7 self)\<rparr>) s7
      in case py_index (keys (heap s8 right)) 0 of
           Inl e \<Rightarrow> Inl e
         | Inr k \<Rightarrow>
             (let s9 = upd top (\<lambda>n. n\<lparr>keys := [k]\<rparr>) s8;
                  s10 = upd top (\<lambda>n. n\<lparr>vals := [Ref self, Ref right]\<rparr>) s9;
                  s11 = upd self (\<lambda>n. n\<lparr>keys := py_upto (keys (heap s10 self)) mid\<rparr>) s10;
                  s12 = upd self (\<lambda>n. n\<lparr>vals := py_upto (vals (heap s11 self)) mid\<rparr>) s11;
                  s13 = upd self (\<lambda>n. n\<lparr>nextLeaf := Some right\<rparr>) s12
              in Inr (top, s13)))"

text \<open>\<^verbatim>\<open>node.split()\<close> dispatches on the class of the node.\<close>

definition split :: "addr \<Rightarrow> ('k, 'v) state \<Rightarrow> error + (addr \<times> ('k, 'v) state)" where
  "split a s = (if is_leaf (heap s a) then LeafNode_split a s else Node_split a s)"

section \<open>BPlusTree\<close>

text \<open>\<^verbatim>\<open>BPlusTree.__init__\<close>: no check of \<^verbatim>\<open>order\<close>.\<close>

definition BPlusTree_init :: "int \<Rightarrow> ('k, 'v) state \<Rightarrow> error + (bptree \<times> ('k, 'v) state)" where
  "BPlusTree_init ord s =
     (let (r, s1) = LeafNode_init ord s in Inr (\<lparr>root = r, tree_order = ord\<rparr>, s1))"

text \<open>\<^verbatim>\<open>BPlusTree._find\<close>: the result is a pair, or \<^verbatim>\<open>None\<close> when the loop ends without a
  \<^verbatim>\<open>return\<close> (a node with no keys).\<close>

fun find_loop :: "'k::linorder \<Rightarrow> 'v pyval list \<Rightarrow> nat \<Rightarrow> 'k list \<Rightarrow> error + ('v pyval \<times> nat) option" where
  "find_loop key vs i [] = Inr None"
| "find_loop key vs i (item # rest) =
     (if key < item then
        (case py_index vs (int i) of Inl e \<Rightarrow> Inl e | Inr v \<Rightarrow> Inr (Some (v, i)))
      else if rest = [] then
        (case py_index vs (int (i + 1)) of Inl e \<Rightarrow> Inl e | Inr v \<Rightarrow> Inr (Some (v, i + 1)))
      else find_loop key vs (i + 1) rest)"

definition BPlusTree_find :: "('k::linorder, 'v) node \<Rightarrow> 'k \<Rightarrow> error + ('v pyval \<times> nat) option" where
  "BPlusTree_find n key = find_loop key (vals n) 0 (keys n)"

text \<open>\<^verbatim>\<open>BPlusTree._mergeUp\<close>: the splice loop over \<^verbatim>\<open>enumerate(parent.keys)\<close>.\<close>

fun mergeUp_loop :: "'k::linorder \<Rightarrow> 'v pyval list \<Rightarrow> nat \<Rightarrow> 'k list \<Rightarrow> ('k, 'v) node \<Rightarrow> ('k, 'v) node" where
  "mergeUp_loop pivot cvs i [] n = n"
| "mergeUp_loop pivot cvs i (item # rest) n =
     (if pivot < item then
        n\<lparr>keys := take i (keys n) @ [pivot] @ drop i (keys n),
          vals := take i (vals n) @ cvs @ drop i (vals n)\<rparr>
      else if rest = [] then
        n\<lparr>keys := keys n @ [pivot], vals := vals n @ cvs\<rparr>
      else mergeUp_loop pivot cvs (i + 1) rest n)"

definition BPlusTree_mergeUp :: "addr \<Rightarrow> addr \<Rightarrow> nat \<Rightarrow> ('k::linorder, 'v) state \<Rightarrow> error + ('k, 'v) state" where
  "BPlusTree_mergeUp par child index s =
     (case py_pop (vals (heap s par)) (int index) of
        Inl e \<Rightarrow> Inl e
      | Inr (_, vs') \<Rightarrow>
          (let s1 = upd par (\<lambda>n. n\<lparr>vals := vs'\<rparr>) s
           in case py_index (keys (heap s1 child)) 0 of
                Inl e \<Rightarrow> Inl e
              | Inr pivot \<Rightarrow>
                  (let s2 = reparent par (vals (heap s1 child)) s1
                   in Inr (upd par (\<lambda>n. mergeUp_loop pivot (vals (heap s2 child)) 0 (keys n) n) s2))))"

text \<open>The descent \<^verbatim>\<open>while not isinstance(node, LeafNode): node, index = self._find(node, key)\<close>.
  Unpacking \<^verbatim>\<open>None\<close> raises \<^verbatim>\<open>TypeError\<close>; a bucket has no attribute \<^verbatim>\<open>keys\<close>. A descent
  that runs forever is \<open>None\<close>.\<close>

partial_function (option) descend :: "(addr \<Rightarrow> ('k::linorder, 'v) node) \<Rightarrow> 'k \<Rightarrow> 'v pyval \<Rightarrow> (error + addr) option" where
  "descend h key nd =
     (case nd of
        Bucket _ \<Rightarrow> Some (Inl AttributeError)
      | Ref a \<Rightarrow>
          if is_leaf (h a) then Some (Inr a)
          else (case BPlusTree_find (h a) key of
                  Inl e \<Rightarrow> Some (Inl e)
                | Inr None \<Rightarrow> Some (Inl TypeError)
                | Inr (Some (c, index)) \<Rightarrow> descend h key c))"

declare descend.simps [code]

text \<open>One round of the overflow loop of \<^verbatim>\<open>insert\<close>: the new tree object, the new current node
  and the new store.\<close>

definition overflow_step :: "bptree \<Rightarrow> addr \<Rightarrow> ('k::linorder, 'v) state \<Rightarrow> error + (bptree \<times> addr \<times> ('k, 'v) state)" where
  "overflow_step t nd s =
     (case parent (heap s nd) of
        Some par \<Rightarrow>
          (case split nd s of
             Inl e \<Rightarrow> Inl e
           | Inr (nd', s1) \<Rightarrow>
               (case py_index (keys (heap s1 nd')) 0 of
                  Inl e \<Rightarrow> Inl e
                | Inr k0 \<Rightarrow>
                    (case BPlusTree_find (heap s1 par) k0 of
                       Inl e \<Rightarrow> Inl e
                     | Inr None \<Rightarrow> Inl TypeError
                     | Inr (Some (jnk, index)) \<Rightarrow>
                         (case BPlusTree_mergeUp par nd' index s1 of
                            Inl e \<Rightarrow> Inl e
                          | Inr s2 \<Rightarrow> Inr (t, par, s2)))))
      | None \<Rightarrow>
          (case split nd s of
             Inl e \<Rightarrow> Inl e
           | Inr (nd', s1) \<Rightarrow> Inr (t\<lparr>root := nd'\<rparr>, nd', s1)))"

text \<open>\<^verbatim>\<open>while len(node.keys) == node.order: ...\<close>; a loop that runs forever is \<open>None\<close>.\<close>

partial_function (option) overflow_loop :: "bptree \<Rightarrow> addr \<Rightarrow> ('k::linorder, 'v) state \<Rightarrow> (error + (bptree \<times> ('k, 'v) state)) option" where
  "overflow_loop t nd s =
     (if int (length (keys (heap s nd))) = order (heap s nd) then
        (case overflow_step t nd s of
           Inl e \<Rightarrow> Some (Inl e)
         | Inr (t', nd', s') \<Rightarrow> overflow_loop t' nd' s')
      else Some (Inr (t, s)))"

declare overflow_loop.simps [code]

text \<open>\<^verbatim>\<open>BPlusTree.insert\<close>.\<close>

definition BPlusTree_insert :: "bptree \<Rightarrow> 'k::linorder \<Rightarrow> 'v \<Rightarrow> ('k, 'v) state \<Rightarrow> (error + (bptree \<times> ('k, 'v) state)) option" where
  "BPlusTree_insert t key v s =
     (case descend (heap s) key (Ref (root t)) of
        None \<Rightarrow> None
      | Some (Inl e) \<Rightarrow> Some (Inl e)
      | Some (Inr a) \<Rightarrow>
          (case LeafNode_add key v (heap s a) of
             Inl e \<Rightarrow> Some (Inl e)
           | Inr n \<Rightarrow> overflow_loop t a (upd a (\<lambda>_. n) s)))"

text \<open>\<^verbatim>\<open>BPlusTree.retrieve\<close>: the scan of the leaf; the result is the bucket
  \<^verbatim>\<open>node.values[i]\<close> or \<^verbatim>\<open>None\<close>.\<close>

fun retrieve_loop :: "'k \<Rightarrow> 'v pyval list \<Rightarrow> nat \<Rightarrow> 'k list \<Rightarrow> error + 'v pyval option" where
  "retrieve_loop key vs i [] = Inr None"
| "retrieve_loop key vs i (item # rest) =
     (if key = item then
        (case py_index vs (int i) of Inl e \<Rightarrow> Inl e | Inr v \<Rightarrow> Inr (Some v))
      else retrieve_loop key vs (i + 1) rest)"

definition BPlusTree_retrieve :: "bptree \<Rightarrow> 'k::linorder \<Rightarrow> ('k, 'v) state \<Rightarrow> (error + 'v pyval option) option" where
  "BPlusTree_retrieve t key s =
     (case descend (heap s) key (Ref (root t)) of
        None \<Rightarrow> None
      | Some (Inl e) \<Rightarrow> Some (Inl e)
      | Some (Inr a) \<Rightarrow> Some (retrieve_loop key (vals (heap s a)) 0 (keys (heap s a))))"

text \<open>\<^verbatim>\<open>BPlusTree.getLeftmostLeaf\<close>. A node object is truthy, so \<^verbatim>\<open>if not self.root\<close> is never
  taken; the result is \<open>Some\<close> leaf, \<open>None\<close> being Python's \<^verbatim>\<open>None\<close>.\<close>

partial_function (option) leftmost_loop :: "(addr \<Rightarrow> ('k, 'v) node) \<Rightarrow> 'v pyval \<Rightarrow> (error + addr) option" where
  "leftmost_loop h nd =
     (case nd of
        Bucket _ \<Rightarrow> Some (Inl AttributeError)
      | Ref a \<Rightarrow>
          if is_leaf (h a) then Some (Inr a)
          else (case py_index (vals (h a)) 0 of
                  Inl e \<Rightarrow> Some (Inl e)
                | Inr c \<Rightarrow> leftmost_loop h c))"

declare leftmost_loop.simps [code]

definition getLeftmostLeaf :: "bptree \<Rightarrow> ('k, 'v) state \<Rightarrow> (error + addr option) option" where
  "getLeftmostLeaf t s =
     (case leftmost_loop (heap s) (Ref (root t)) of
        None \<Rightarrow> None
      | Some (Inl e) \<Rightarrow> Some (Inl e)
      | Some (Inr a) \<Rightarrow> Some (Inr (Some a)))"

text \<open>\<^verbatim>\<open>BPlusTree.getRightmostLeaf\<close>: the same loop along \<^verbatim>\<open>node.values[-1]\<close>, and no
  \<^verbatim>\<open>return\<close> after it, so the call returns \<^verbatim>\<open>None\<close>.\<close>

partial_function (option) rightmost_loop :: "(addr \<Rightarrow> ('k, 'v) node) \<Rightarrow> 'v pyval \<Rightarrow> (error + addr) option" where
  "rightmost_loop h nd =
     (case nd of
        Bucket _ \<Rightarrow> Some (Inl AttributeError)
      | Ref a \<Rightarrow>
          if is_leaf (h a) then Some (Inr a)
          else (case py_index (vals (h a)) (- 1) of
                  Inl e \<Rightarrow> Some (Inl e)
                | Inr c \<Rightarrow> rightmost_loop h c))"

declare rightmost_loop.simps [code]

definition getRightmostLeaf :: "bptree \<Rightarrow> ('k, 'v) state \<Rightarrow> (error + addr option) option" where
  "getRightmostLeaf t s =
     (case rightmost_loop (heap s) (Ref (root t)) of
        None \<Rightarrow> None
      | Some (Inl e) \<Rightarrow> Some (Inl e)
      | Some (Inr a) \<Rightarrow> Some (Inr None))"

subsection \<open>The helpers of deletion\<close>

text \<open>\<^verbatim>\<open>data.parent = node\<close> for an element of \<^verbatim>\<open>values\<close>: a bucket is a Python list and
  takes no attribute.\<close>

definition set_parent :: "'v pyval \<Rightarrow> addr \<Rightarrow> ('k, 'v) state \<Rightarrow> error + ('k, 'v) state" where
  "set_parent d p s =
     (case d of Ref c \<Rightarrow> Inr (upd c (\<lambda>n. n\<lparr>parent := Some p\<rparr>) s) | Bucket _ \<Rightarrow> Inl AttributeError)"

text \<open>\<^verbatim>\<open>BPlusTree._borrowLeft(node, sibling, parentIndex)\<close>: the leaf branch and the
  branch of internal nodes.\<close>

definition borrowLeft_leaf :: "addr \<Rightarrow> addr \<Rightarrow> int \<Rightarrow> ('k, 'v) state \<Rightarrow> error + ('k, 'v) state" where
  "borrowLeft_leaf nd sib parentIndex s =
     (case py_pop (keys (heap s sib)) (- 1) of
        Inl e \<Rightarrow> Inl e
      | Inr (key, ks') \<Rightarrow>
          (let s1 = upd sib (\<lambda>n. n\<lparr>keys := ks'\<rparr>) s
           in (case py_pop (vals (heap s1 sib)) (- 1) of
                 Inl e \<Rightarrow> Inl e
               | Inr (d, vs') \<Rightarrow>
                   (let s2 = upd sib (\<lambda>n. n\<lparr>vals := vs'\<rparr>) s1;
                        s3 = upd nd (\<lambda>n. n\<lparr>keys := key # keys n\<rparr>) s2;
                        s4 = upd nd (\<lambda>n. n\<lparr>vals := d # vals n\<rparr>) s3
                    in (case parent (heap s4 nd) of
                          None \<Rightarrow> Inl AttributeError
                        | Some par \<Rightarrow>
                            (case py_store (keys (heap s4 par)) (parentIndex - 1) key of
                               Inl e \<Rightarrow> Inl e
                             | Inr pks \<Rightarrow> Inr (upd par (\<lambda>n. n\<lparr>keys := pks\<rparr>) s4)))))))"

definition borrowLeft_internal :: "addr \<Rightarrow> addr \<Rightarrow> int \<Rightarrow> ('k, 'v) state \<Rightarrow> error + ('k, 'v) state" where
  "borrowLeft_internal nd sib parentIndex s =
     (case parent (heap s nd) of
        None \<Rightarrow> Inl AttributeError
      | Some par \<Rightarrow>
          (case py_pop (keys (heap s par)) (- 1) of
             Inl e \<Rightarrow> Inl e
           | Inr (parent_key, pks) \<Rightarrow>
               (let s1 = upd par (\<lambda>n. n\<lparr>keys := pks\<rparr>) s
                in (case py_pop (keys (heap s1 sib)) (- 1) of
                      Inl e \<Rightarrow> Inl e
                    | Inr (sibling_key, ks') \<Rightarrow>
                        (let s2 = upd sib (\<lambda>n. n\<lparr>keys := ks'\<rparr>) s1
                         in (case py_pop (vals (heap s2 sib)) (- 1) of
                               Inl e \<Rightarrow> Inl e
                             | Inr (d, vs') \<Rightarrow>
                                 (let s3 = upd sib (\<lambda>n. n\<lparr>vals := vs'\<rparr>) s2
                                  in (case set_parent d nd s3 of
                                        Inl e \<Rightarrow> Inl e
                                      | Inr s4 \<Rightarrow>
                                          (case parent (heap s4 nd) of
                                             None \<Rightarrow> Inl AttributeError
                                           | Some par' \<Rightarrow>
                                               (let s5 = upd par' (\<lambda>n. n\<lparr>keys := sibling_key # keys n\<rparr>) s4;
                                                    s6 = upd nd (\<lambda>n. n\<lparr>keys := parent_key # keys n\<rparr>) s5
                                                in Inr (upd nd (\<lambda>n. n\<lparr>vals := d # vals n\<rparr>) s6)))))))))))"

definition BPlusTree_borrowLeft :: "addr \<Rightarrow> addr \<Rightarrow> int \<Rightarrow> ('k, 'v) state \<Rightarrow> error + ('k, 'v) state" where
  "BPlusTree_borrowLeft nd sib parentIndex s =
     (if is_leaf (heap s nd) then borrowLeft_leaf nd sib parentIndex s
      else borrowLeft_internal nd sib parentIndex s)"

text \<open>\<^verbatim>\<open>BPlusTree._borrowRight(node, sibling, parentIndex)\<close>, likewise.\<close>

definition borrowRight_leaf :: "addr \<Rightarrow> addr \<Rightarrow> int \<Rightarrow> ('k, 'v) state \<Rightarrow> error + ('k, 'v) state" where
  "borrowRight_leaf nd sib parentIndex s =
     (case py_pop (keys (heap s sib)) 0 of
        Inl e \<Rightarrow> Inl e
      | Inr (key, ks') \<Rightarrow>
          (let s1 = upd sib (\<lambda>n. n\<lparr>keys := ks'\<rparr>) s
           in (case py_pop (vals (heap s1 sib)) 0 of
                 Inl e \<Rightarrow> Inl e
               | Inr (d, vs') \<Rightarrow>
                   (let s2 = upd sib (\<lambda>n. n\<lparr>vals := vs'\<rparr>) s1;
                        s3 = upd nd (\<lambda>n. n\<lparr>keys := keys n @ [key]\<rparr>) s2;
                        s4 = upd nd (\<lambda>n. n\<lparr>vals := vals n @ [d]\<rparr>) s3
                    in (case parent (heap s4 nd) of
                          None \<Rightarrow> Inl AttributeError
                        | Some par \<Rightarrow>
                            (case py_index (keys (heap s4 sib)) 0 of
                               Inl e \<Rightarrow> Inl e
                             | Inr k0 \<Rightarrow>
                                 (case py_store (keys (heap s4 par)) parentIndex k0 of
                                    Inl e \<Rightarrow> Inl e
                                  | Inr pks \<Rightarrow> Inr (upd par (\<lambda>n. n\<lparr>keys := pks\<rparr>) s4))))))))"

definition borrowRight_internal :: "addr \<Rightarrow> addr \<Rightarrow> int \<Rightarrow> ('k, 'v) state \<Rightarrow> error + ('k, 'v) state" where
  "borrowRight_internal nd sib parentIndex s =
     (case parent (heap s nd) of
        None \<Rightarrow> Inl AttributeError
      | Some par \<Rightarrow>
          (case py_pop (keys (heap s par)) 0 of
             Inl e \<Rightarrow> Inl e
           | Inr (parent_key, pks) \<Rightarrow>
               (let s1 = upd par (\<lambda>n. n\<lparr>keys := pks\<rparr>) s
                in (case py_pop (keys (heap s1 sib)) 0 of
                      Inl e \<Rightarrow> Inl e
                    | Inr (sibling_key, ks') \<Rightarrow>
                        (let s2 = upd sib (\<lambda>n. n\<lparr>keys := ks'\<rparr>) s1
                         in (case py_pop (vals (heap s2 sib)) 0 of
                               Inl e \<Rightarrow> Inl e
                             | Inr (d, vs') \<Rightarrow>
                                 (let s3 = upd sib (\<lambda>n. n\<lparr>vals := vs'\<rparr>) s2
                                  in (case set_parent d nd s3 of
                                        Inl e \<Rightarrow> Inl e
                                      | Inr s4 \<Rightarrow>
                                          (case parent (heap s4 nd) of
                                             None \<Rightarrow> Inl AttributeError
                                           | Some par' \<Rightarrow>
                                               (let s5 = upd par' (\<lambda>n. n\<lparr>keys := keys n @ [sibling_key]\<rparr>) s4;
                                                    s6 = upd nd (\<lambda>n. n\<lparr>keys := keys n @ [parent_key]\<rparr>) s5
                                                in Inr (upd nd (\<lambda>n. n\<lparr>vals := vals n @ [d]\<rparr>) s6)))))))))))"

definition BPlusTree_borrowRight :: "addr \<Rightarrow> addr \<Rightarrow> int \<Rightarrow> ('k, 'v) state \<Rightarrow> error + ('k, 'v) state" where
  "BPlusTree_borrowRight nd sib parentIndex s =
     (if is_leaf (heap s nd) then borrowRight_leaf nd sib parentIndex s
      else borrowRight_internal nd sib parentIndex s)"

text \<open>\<^verbatim>\<open>for r_node_child in r_node.values: r_node_child.parent = l_node\<close>, with no
  \<^verbatim>\<open>isinstance\<close> test.\<close>

fun set_parents :: "'v pyval list \<Rightarrow> addr \<Rightarrow> ('k, 'v) state \<Rightarrow> error + ('k, 'v) state" where
  "set_parents [] p s = Inr s"
| "set_parents (d # ds) p s =
     (case set_parent d p s of Inl e \<Rightarrow> Inl e | Inr s' \<Rightarrow> set_parents ds p s')"

text \<open>\<^verbatim>\<open>BPlusTree._mergeOnDelete(l_node, r_node)\<close>: first the removal of the separator and
  of one child slot from the parent, then the merge of the two nodes.\<close>

definition mergeOnDelete_unlink :: "addr \<Rightarrow> addr \<Rightarrow> nat \<Rightarrow> ('k, 'v) state \<Rightarrow> error + ('k \<times> ('k, 'v) state)" where
  "mergeOnDelete_unlink par l_node index s =
     (case py_pop (keys (heap s par)) (int index) of
        Inl e \<Rightarrow> Inl e
      | Inr (parent_key, pks) \<Rightarrow>
          (let s1 = upd par (\<lambda>n. n\<lparr>keys := pks\<rparr>) s
           in (case py_pop (vals (heap s1 par)) (int index) of
                 Inl e \<Rightarrow> Inl e
               | Inr (_, pvs) \<Rightarrow>
                   (let s2 = upd par (\<lambda>n. n\<lparr>vals := pvs\<rparr>) s1
                    in (case py_store (vals (heap s2 par)) (int index) (Ref l_node) of
                          Inl e \<Rightarrow> Inl e
                        | Inr pvs' \<Rightarrow> Inr (parent_key, upd par (\<lambda>n. n\<lparr>vals := pvs'\<rparr>) s2))))))"

definition mergeOnDelete_join :: "addr \<Rightarrow> addr \<Rightarrow> 'k \<Rightarrow> ('k, 'v) state \<Rightarrow> error + ('k, 'v) state" where
  "mergeOnDelete_join l_node r_node parent_key s =
     (case (if is_leaf (heap s l_node) \<and> is_leaf (heap s r_node)
            then Inr (upd l_node (\<lambda>n. n\<lparr>nextLeaf := nextLeaf (heap s r_node)\<rparr>) s)
            else set_parents (vals (heap s r_node)) l_node
                   (upd l_node (\<lambda>n. n\<lparr>keys := keys n @ [parent_key]\<rparr>) s)) of
        Inl e \<Rightarrow> Inl e
      | Inr s1 \<Rightarrow>
          (let s2 = upd l_node (\<lambda>n. n\<lparr>keys := keys n @ keys (heap s1 r_node)\<rparr>) s1
           in Inr (upd l_node (\<lambda>n. n\<lparr>vals := vals n @ vals (heap s2 r_node)\<rparr>) s2)))"

definition BPlusTree_mergeOnDelete :: "addr \<Rightarrow> addr \<Rightarrow> ('k::linorder, 'v) state \<Rightarrow> error + ('k, 'v) state" where
  "BPlusTree_mergeOnDelete l_node r_node s =
     (case py_index (keys (heap s l_node)) 0 of
        Inl e \<Rightarrow> Inl e
      | Inr k0 \<Rightarrow>
          (case parent (heap s l_node) of
             None \<Rightarrow> Inl AttributeError
           | Some par \<Rightarrow>
               (case BPlusTree_find (heap s par) k0 of
                  Inl e \<Rightarrow> Inl e
                | Inr None \<Rightarrow> Inl TypeError
                | Inr (Some (jnk, index)) \<Rightarrow>
                    (case mergeOnDelete_unlink par l_node index s of
                       Inl e \<Rightarrow> Inl e
                     | Inr (parent_key, s1) \<Rightarrow> mergeOnDelete_join l_node r_node parent_key s1))))"

subsection \<open>Name resolution in the module\<close>

text \<open>The names the module binds at top level, and Python's built-in functions. A name that
  is in neither raises \<^verbatim>\<open>NameError\<close> when it is evaluated.\<close>

definition module_globals :: "string list" where
  "module_globals =
     [''annotations'', ''Node'', ''LeafNode'', ''BPlusTree'', ''Digraph'',
      ''read_numbers_from_file'', ''visualize_bplus_tree_graphviz'', ''bpt'', ''numbers'', ''num'']"

definition builtins :: "string list" where
  "builtins =
     [''abs'', ''aiter'', ''all'', ''anext'', ''any'', ''ascii'', ''bin'', ''bool'',
      ''breakpoint'', ''bytearray'', ''bytes'', ''callable'', ''chr'', ''classmethod'',
      ''compile'', ''complex'', ''delattr'', ''dict'', ''dir'', ''divmod'', ''enumerate'',
      ''eval'', ''exec'', ''filter'', ''float'', ''format'', ''frozenset'', ''getattr'',
      ''globals'', ''hasattr'', ''hash'', ''help'', ''hex'', ''id'', ''input'', ''int'',
      ''isinstance'', ''issubclass'', ''iter'', ''len'', ''list'', ''locals'', ''map'', ''max'',
      ''memoryview'', ''min'', ''next'', ''object'', ''oct'', ''open'', ''ord'', ''pow'',
      ''print'', ''property'', ''range'', ''repr'', ''reversed'', ''round'', ''set'',
      ''setattr'', ''slice'', ''sorted'', ''staticmethod'', ''str'', ''sum'', ''super'',
      ''tuple'', ''type'', ''vars'', ''zip'']"

definition load_global :: "string \<Rightarrow> error + unit" where
  "load_global name =
     (if name \<in> set module_globals \<or> name \<in> set builtins then Inr () else Inl NameError)"

text \<open>\<^verbatim>\<open>Node.isNearlyUnderflow\<close> and \<^verbatim>\<open>Node.isUnderflow\<close>: \<^verbatim>\<open>len(self.keys)\<close> is evaluated,
  then the name \<^verbatim>\<open>floor\<close> is looked up, then its argument is computed. For an integer
  order the intended \<^verbatim>\<open>floor(self.order / 2)\<close> is \<open>order div 2\<close>.\<close>

definition isNearlyUnderflow :: "('k, 'v) node \<Rightarrow> error + bool" where
  "isNearlyUnderflow n =
     (let len = int (length (keys n))
      in case load_global ''floor'' of
           Inl e \<Rightarrow> Inl e
         | Inr _ \<Rightarrow> Inr (len \<le> order n div 2))"

definition isUnderflow :: "('k, 'v) node \<Rightarrow> error + bool" where
  "isUnderflow n =
     (let len = int (length (keys n))
      in case load_global ''floor'' of
           Inl e \<Rightarrow> Inl e
         | Inr _ \<Rightarrow> Inr (len \<le> order n div 2 - 1))"

text \<open>The attributes of the class \<^verbatim>\<open>BPlusTree\<close>, in source order, and of its instances;
  any other attribute of a tree raises \<^verbatim>\<open>AttributeError\<close>.\<close>

definition BPlusTree_attributes :: "string list" where
  "BPlusTree_attributes =
     [''__init__'', ''_find'', ''_mergeUp'', ''insert'', ''retrieve'', ''_borrowLeft'',
      ''_borrowRight'', ''_mergeOnDelete'', ''getPrevSibling'', ''getNextSibling'',
      ''getLeftmostLeaf'', ''getRightmostLeaf'', ''intersperse'', ''root'', ''order'']"

definition BPlusTree_getattr :: "string \<Rightarrow> error + string" where
  "BPlusTree_getattr name =
     (if name \<in> set BPlusTree_attributes then Inr name else Inl AttributeError)"

section \<open>Running the tree\<close>

text \<open>A sequence of \<^verbatim>\<open>insert\<close> calls, stopping at the first exception.\<close>

fun run_inserts :: "('k::linorder \<times> 'v) list \<Rightarrow> bptree \<Rightarrow> ('k, 'v) state \<Rightarrow> (error + (bptree \<times> ('k, 'v) state)) option" where
  "run_inserts [] t s = Some (Inr (t, s))"
| "run_inserts ((k, v) # r) t s =
     (case BPlusTree_insert t k v s of
        None \<Rightarrow> None
      | Some (Inl e) \<Rightarrow> Some (Inl e)
      | Some (Inr (t', s')) \<Rightarrow> run_inserts r t' s')"

text \<open>\<^verbatim>\<open>BPlusTree(order)\<close> followed by the inserts.\<close>

definition inserts_from :: "int \<Rightarrow> ('k::linorder \<times> 'v) list \<Rightarrow> ('k, 'v) state \<Rightarrow> (error + (bptree \<times> ('k, 'v) state)) option" where
  "inserts_from ord ops s0 =
     (case BPlusTree_init ord s0 of
        Inl e \<Rightarrow> Some (Inl e)
      | Inr (t, s) \<Rightarrow> run_inserts ops t s)"

text \<open>The traversal of the leaf chain: \<^verbatim>\<open>while leaf: ...; leaf = leaf.nextLeaf\<close>, collecting
  the leaves. A chain that never ends is \<open>None\<close>.\<close>

partial_function (option) chain_leaves :: "(addr \<Rightarrow> ('k, 'v) node) \<Rightarrow> addr option \<Rightarrow> addr list option" where
  "chain_leaves h l =
     (case l of
        None \<Rightarrow> Some []
      | Some a \<Rightarrow> Option.bind (chain_leaves h (nextLeaf (h a))) (\<lambda>r. Some (a # r)))"

declare chain_leaves.simps [code]

definition chain_keys :: "(addr \<Rightarrow> ('k, 'v) node) \<Rightarrow> addr option \<Rightarrow> 'k list option" where
  "chain_keys h l = map_option (\<lambda>ls. concat (map (\<lambda>a. keys (h a)) ls)) (chain_leaves h l)"

section \<open>Concrete stores\<close>

text \<open>A store given by the list of its nodes, the node of address \<open>a\<close> at position
  \<open>a - 1\<close>: the form in which the scenarios below are computed.\<close>

definition mk_state :: "('k, 'v) node list \<Rightarrow> ('k, 'v) state" where
  "mk_state ns =
     \<lparr>heap = (\<lambda>a. if 0 < a \<and> a \<le> length ns then ns ! (a - Suc 0) else blank),
      uidCounter = length ns\<rparr>"

section \<open>Computing with concrete stores\<close>

lemma heap_mk_state:
  "heap (mk_state ns) a = (if 0 < a \<and> a \<le> length ns then ns ! (a - Suc 0) else blank)"
  by (simp add: mk_state_def)

lemma uidCounter_mk_state: "uidCounter (mk_state ns) = length ns"
  by (simp add: mk_state_def)

lemma upd_mk_state:
  assumes "0 < a" "a \<le> length ns"
  shows "upd a f (mk_state ns) = mk_state (ns[a - Suc 0 := f (ns ! (a - Suc 0))])"
proof -
  have "(if 0 < x \<and> x \<le> length ns then ns[a - Suc 0 := v] ! (x - Suc 0) else blank) =
        ((\<lambda>b. if 0 < b \<and> b \<le> length ns then ns ! (b - Suc 0) else blank)(a := v)) x" for x v
  proof (cases "x = a")
    case True
    then show ?thesis using assms by simp
  next
    case False
    show ?thesis
    proof (cases "0 < x \<and> x \<le> length ns")
      case True
      then have "a - Suc 0 \<noteq> x - Suc 0" using False assms by arith
      then have "ns[a - Suc 0 := v] ! (x - Suc 0) = ns ! (x - Suc 0)" by simp
      then show ?thesis using True False by simp
    next
      case F: False
      then consider "x = 0" | "length ns < x" by force
      then show ?thesis using False by cases simp_all
    qed
  qed
  then have "(\<lambda>x. if 0 < x \<and> x \<le> length ns then ns[a - Suc 0 := v] ! (x - Suc 0) else blank) =
        ((\<lambda>b. if 0 < b \<and> b \<le> length ns then ns ! (b - Suc 0) else blank)(a := v))" for v
    by (intro ext)
  then show ?thesis using assms
    by (simp add: upd_def mk_state_def)
qed

lemma alloc_mk_state:
  "\<lparr>heap = (heap (mk_state ns))(Suc (length ns) := n), uidCounter = Suc (length ns)\<rparr> =
   mk_state (ns @ [n])"
proof -
  have "((\<lambda>b. if 0 < b \<and> b \<le> length ns then ns ! (b - Suc 0) else blank)(Suc (length ns) := n)) x
      = (if 0 < x \<and> x \<le> Suc (length ns) then (ns @ [n]) ! (x - Suc 0) else blank)" for x
  proof (cases "x = Suc (length ns)")
    case True
    then show ?thesis by simp
  next
    case False
    then have "0 < x \<Longrightarrow> x \<le> Suc (length ns) \<Longrightarrow> x - Suc 0 < length ns" by arith
    then show ?thesis using False by (simp add: nth_append)
  qed
  then have "((\<lambda>b. if 0 < b \<and> b \<le> length ns then ns ! (b - Suc 0) else blank)(Suc (length ns) := n))
      = (\<lambda>x. if 0 < x \<and> x \<le> Suc (length ns) then (ns @ [n]) ! (x - Suc 0) else blank)"
    by (intro ext)
  then show ?thesis by (simp add: mk_state_def)
qed

lemma Node_init_mk_state:
  "Node_init ord (mk_state ns) =
     (Suc (length ns),
      mk_state (ns @ [\<lparr>is_leaf = False, order = ord, parent = None, keys = [], vals = [],
                       uid = Suc (length ns), prevLeaf = None, nextLeaf = None\<rparr>]))"
  by (simp add: Node_init_def Let_def uidCounter_mk_state alloc_mk_state)

lemma LeafNode_init_mk_state:
  "LeafNode_init ord (mk_state ns) =
     (Suc (length ns),
      mk_state (ns @ [\<lparr>is_leaf = True, order = ord, parent = None, keys = [], vals = [],
                       uid = Suc (length ns), prevLeaf = None, nextLeaf = None\<rparr>]))"
  by (simp add: LeafNode_init_def Let_def uidCounter_mk_state alloc_mk_state)

lemma init_mk_state: "init_state = mk_state []"
  by (simp add: init_state_def mk_state_def fun_eq_iff)

lemmas eval_simps =
  inserts_from_def BPlusTree_init_def init_mk_state LeafNode_init_mk_state Node_init_mk_state
  upd_mk_state heap_mk_state uidCounter_mk_state BPlusTree_insert_def descend.simps
  LeafNode_add_def overflow_loop.simps overflow_step_def split_def LeafNode_split_def
  Node_split_def py_pos_def py_index_def py_from_def py_upto_def py_pop_def py_store_def
  BPlusTree_find_def BPlusTree_mergeUp_def reparent_def BPlusTree_retrieve_def
  getLeftmostLeaf_def leftmost_loop.simps getRightmostLeaf_def rightmost_loop.simps
  chain_keys_def chain_leaves.simps

section \<open>The claims\<close>

text \<open>C3. Order 3, inserting 10, 20, 5, 6, 12, 30, 7, 17, each key as its own value: the
  root is a leaf until the third key, whose insertion makes it an internal node with exactly
  one key; after all eight inserts \<^verbatim>\<open>retrieve(12)\<close> is \<^verbatim>\<open>[12]\<close>, \<^verbatim>\<open>retrieve(99)\<close> is
  \<^verbatim>\<open>None\<close>, and the leaf chain from the leftmost leaf reads 5, 6, 7, 10, 12, 17, 20, 30.\<close>

theorem C3_order3_scenario:
  "(case inserts_from 3 [(10::int, 10::int), (20, 20)] init_state of
      Some (Inr (t, s)) \<Rightarrow> is_leaf (heap s (root t))
    | _ \<Rightarrow> False) \<and>
   (case inserts_from 3 [(10::int, 10::int), (20, 20), (5, 5)] init_state of
      Some (Inr (t, s)) \<Rightarrow>
        \<not> is_leaf (heap s (root t)) \<and> length (keys (heap s (root t))) = 1
    | _ \<Rightarrow> False) \<and>
   (case inserts_from 3 [(10::int, 10::int), (20, 20), (5, 5), (6, 6), (12, 12), (30, 30),
                          (7, 7), (17, 17)] init_state of
      Some (Inr (t, s)) \<Rightarrow>
        BPlusTree_retrieve t 12 s = Some (Inr (Some (Bucket [12]))) \<and>
        BPlusTree_retrieve t 99 s = Some (Inr None) \<and>
        (case getLeftmostLeaf t s of
           Some (Inr l) \<Rightarrow> chain_keys (heap s) l = Some [5, 6, 7, 10, 12, 17, 20, 30]
         | _ \<Rightarrow> False)
    | _ \<Rightarrow> False)"
  by (simp add: eval_simps)

text \<open>C4. The leaf chain is not kept doubly linked. Order 3, inserting 10, 20, 5, 6, 7: the
  last insert splits leaf 1, which has the successor 3; the new right leaf 5 gets
  \<^verbatim>\<open>nextLeaf\<close> 3, but \<^verbatim>\<open>prevLeaf\<close> of leaf 3 still is leaf 1. Order 3, inserting
  10, 20, 5, 6, 12 and then merging the leaves 1 and 3: leaf 1 gets \<^verbatim>\<open>nextLeaf\<close> 5, but
  \<^verbatim>\<open>prevLeaf\<close> of leaf 5 still is the merged-away leaf 3.\<close>

theorem C4_prevLeaf_not_relinked:
  "(case inserts_from 3 [(10::int, 10::int), (20, 20), (5, 5), (6, 6), (7, 7)] init_state of
      Some (Inr (t, s)) \<Rightarrow>
        nextLeaf (heap s 1) = Some 5 \<and> nextLeaf (heap s 5) = Some 3 \<and>
        prevLeaf (heap s 5) = Some 1 \<and> prevLeaf (heap s 3) = Some 1
    | _ \<Rightarrow> False) \<and>
   (case inserts_from 3 [(10::int, 10::int), (20, 20), (5, 5), (6, 6), (12, 12)] init_state of
      Some (Inr (t, s)) \<Rightarrow>
        nextLeaf (heap s 1) = Some 3 \<and> nextLeaf (heap s 3) = Some 5 \<and>
        (case BPlusTree_mergeOnDelete 1 3 s of
           Inr s' \<Rightarrow>
             keys (heap s' 1) = [5, 6, 10] \<and> nextLeaf (heap s' 1) = Some 5 \<and>
             prevLeaf (heap s' 5) = Some 3
         | Inl e \<Rightarrow> False)
    | _ \<Rightarrow> False)"
  by (simp add: eval_simps BPlusTree_mergeOnDelete_def mergeOnDelete_unlink_def
      mergeOnDelete_join_def)

text \<open>C5. The class has no attribute \<^verbatim>\<open>delete\<close>: the call \<^verbatim>\<open>tree.delete(key)\<close> raises
  \<^verbatim>\<open>AttributeError\<close> before any key is looked at, while \<^verbatim>\<open>insert\<close> and \<^verbatim>\<open>retrieve\<close> and
  the helpers of deletion are there.\<close>

theorem C5_no_delete_operation:
  "BPlusTree_getattr ''delete'' = Inl AttributeError \<and>
   BPlusTree_getattr ''insert'' = Inr ''insert'' \<and>
   BPlusTree_getattr ''retrieve'' = Inr ''retrieve'' \<and>
   BPlusTree_getattr ''_mergeOnDelete'' = Inr ''_mergeOnDelete''"
  by (simp add: BPlusTree_getattr_def BPlusTree_attributes_def)

text \<open>C6, as stated, fails: \<^verbatim>\<open>BPlusTree(2)\<close> returns a tree whose root is an empty leaf, and
  the tree takes an insert and answers the lookup of the key.\<close>

theorem C6_order_2_constructs:
  "(case BPlusTree_init 2 (init_state :: (int, int) state) of
      Inr (t, s) \<Rightarrow>
        tree_order t = 2 \<and> is_leaf (heap s (root t)) \<and> keys (heap s (root t)) = [] \<and>
        (case BPlusTree_insert t 1 1 s of
           Some (Inr (t', s')) \<Rightarrow> BPlusTree_retrieve t' 1 s' = Some (Inr (Some (Bucket [1])))
         | _ \<Rightarrow> False)
    | Inl e \<Rightarrow> False)"
  by (simp add: eval_simps)

text \<open>C6, amended: the constructor checks nothing. For every order, also 2 or less, zero and
  negative, it returns a tree of that order whose root is a new empty leaf without parent.\<close>

theorem C6_init_never_fails:
  "\<exists>t s'. BPlusTree_init ord s = Inr (t, s') \<and> tree_order t = ord \<and>
     root t = uidCounter s + 1 \<and> uidCounter s' = uidCounter s + 1 \<and>
     is_leaf (heap s' (root t)) \<and> order (heap s' (root t)) = ord \<and>
     keys (heap s' (root t)) = [] \<and> vals (heap s' (root t)) = [] \<and>
     parent (heap s' (root t)) = None"
  by (simp add: BPlusTree_init_def LeafNode_init_def Let_def)

text \<open>C7. The internal branches of \<^verbatim>\<open>_borrowRight\<close> and \<^verbatim>\<open>_borrowLeft\<close> ignore
  \<^verbatim>\<open>parentIndex\<close>: they take the first (the last) key of the parent and put the sibling's key
  behind (in front of) the parent's keys.
  Order 3, inserting 10, 20, ..., 80: the root 2 has the keys 30, 50 and the children 8, 14,
  15, and node 15 has two keys. Borrowing for node 14 from its right sibling 15 moves 30, not
  the separator 50, into node 14, whose keys become 40, 30; the root's keys become 50, 60;
  and key 30, still stored in its leaf, is no longer found.
  Order 3, inserting 10, 20, ..., 70, 5, 7: node 8 has two keys. Borrowing for node 14 from
  its left sibling 8 moves 50, not the separator 30, into node 14, whose keys become 50, 40;
  the root's keys become 20, 30; and key 40 is no longer found.\<close>

theorem C7_internal_borrow_breaks_search:
  "(case inserts_from 3 [(10::int, 10::int), (20, 20), (30, 30), (40, 40), (50, 50), (60, 60),
        (70, 70), (80, 80)] init_state of
      Some (Inr (t, s)) \<Rightarrow>
        root t = 2 \<and> keys (heap s 2) = [30, 50] \<and>
        vals (heap s 2) = [Ref 8, Ref 14, Ref 15] \<and>
        keys (heap s 14) = [40] \<and> keys (heap s 15) = [60, 70] \<and>
        BPlusTree_retrieve t 30 s = Some (Inr (Some (Bucket [30]))) \<and>
        (case BPlusTree_borrowRight 14 15 1 s of
           Inr s' \<Rightarrow>
             keys (heap s' 2) = [50, 60] \<and> keys (heap s' 14) = [40, 30] \<and>
             keys (heap s' 5) = [30] \<and>
             BPlusTree_retrieve t 30 s' = Some (Inr None)
         | Inl e \<Rightarrow> False)
    | _ \<Rightarrow> False) \<and>
   (case inserts_from 3 [(10::int, 10::int), (20, 20), (30, 30), (40, 40), (50, 50), (60, 60),
        (70, 70), (5, 5), (7, 7)] init_state of
      Some (Inr (t, s)) \<Rightarrow>
        root t = 2 \<and> keys (heap s 2) = [30, 50] \<and>
        vals (heap s 2) = [Ref 8, Ref 14, Ref 15] \<and>
        keys (heap s 8) = [7, 20] \<and> keys (heap s 14) = [40] \<and>
        BPlusTree_retrieve t 40 s = Some (Inr (Some (Bucket [40]))) \<and>
        (case BPlusTree_borrowLeft 14 8 1 s of
           Inr s' \<Rightarrow>
             keys (heap s' 2) = [20, 30] \<and> keys (heap s' 14) = [50, 40] \<and>
             keys (heap s' 7) = [40] \<and>
             BPlusTree_retrieve t 40 s' = Some (Inr None)
         | Inl e \<Rightarrow> False)
    | _ \<Rightarrow> False)"
  by (simp add: eval_simps BPlusTree_borrowLeft_def borrowLeft_internal_def
      BPlusTree_borrowRight_def borrowRight_internal_def set_parent_def)

text \<open>C8. \<^verbatim>\<open>getRightmostLeaf\<close> has no \<^verbatim>\<open>return\<close> after its loop. Order 3, inserting 10, 20,
  5: the walk along the last children ends in leaf 3, the rightmost leaf, and the call
  returns \<^verbatim>\<open>None\<close>, while \<^verbatim>\<open>getLeftmostLeaf\<close> returns leaf 1.\<close>

theorem C8_getRightmostLeaf_returns_None:
  "(case inserts_from 3 [(10::int, 10::int), (20, 20), (5, 5)] init_state of
      Some (Inr (t, s)) \<Rightarrow>
        rightmost_loop (heap s) (Ref (root t)) = Some (Inr 3) \<and>
        keys (heap s 3) = [10, 20] \<and>
        getRightmostLeaf t s = Some (Inr None) \<and>
        getLeftmostLeaf t s = Some (Inr (Some 1))
    | _ \<Rightarrow> False)"
  by (simp add: eval_simps)

text \<open>C9. \<^verbatim>\<open>isUnderflow\<close> and \<^verbatim>\<open>isNearlyUnderflow\<close> raise \<^verbatim>\<open>NameError\<close> on every node: the
  name \<^verbatim>\<open>floor\<close> is neither bound by the module nor built in.\<close>

theorem C9_underflow_predicates_raise_NameError:
  "isUnderflow n = Inl NameError \<and> isNearlyUnderflow n = Inl NameError"
  by (simp add: isUnderflow_def isNearlyUnderflow_def load_global_def module_globals_def
      builtins_def)

end
